theory Spec2Isabelle
  imports Main
begin

section \<open>Data model\<close>

text \<open>
  The rows of the two tables (\<^verbatim>\<open>app.models.User\<close>, \<^verbatim>\<open>app.models.Task\<close>) with the
  columns that \<^verbatim>\<open>schemas.py\<close>, \<^verbatim>\<open>crud.py\<close> and the routes read and write. The
  primary keys are called \<open>user_id\<close> and \<open>task_id\<close> (\<open>id\<close> is the identity function of
  HOL). Timestamps are integers. A column that \<^verbatim>\<open>setattr\<close> may set to \<^verbatim>\<open>None\<close>
  (\<^verbatim>\<open>TaskUpdate\<close> declares all three of its fields \<^verbatim>\<open>Optional[str]\<close>) holds a
  \<open>string option\<close>.
\<close>

record user =
  user_id :: int
  email :: string
  full_name :: string
  hashed_password :: string
  is_active :: bool
  user_created_at :: int

record task =
  task_id :: int
  title :: "string option"
  description :: "string option"
  status :: "string option"
  owner_id :: int
  created_at :: int
  updated_at :: int

text \<open>The session: both tables, each a list of rows in table order.\<close>

record db =
  users :: "user list"
  tasks :: "task list"

subsection \<open>Request and response schemas (\<^verbatim>\<open>schemas.py\<close>)\<close>

record UserCreate =
  uc_email :: string
  uc_full_name :: string
  uc_password :: string

record LoginRequest =
  lr_email :: string
  lr_password :: string

text \<open>\<^verbatim>\<open>TaskCreate\<close> has a title and an optional description, and no other field.\<close>

record TaskCreate =
  tc_title :: string
  tc_description :: "string option"

text \<open>
  \<^verbatim>\<open>TaskUpdate\<close>: every field is optional, and \<^verbatim>\<open>model_dump(exclude_unset=True)\<close>
  tells a field the request did not carry (\<open>None\<close>) from one it carried, possibly with
  the value null (\<open>Some None\<close>).
\<close>

record TaskUpdate =
  tu_title :: "string option option"
  tu_description :: "string option option"
  tu_status :: "string option option"

record Token =
  access_token :: string
  token_type :: string

record Settings =
  SECRET_KEY :: string
  ACCESS_TOKEN_EXPIRE_MINUTES :: int

text \<open>\<^verbatim>\<open>raise HTTPException(status_code=..., detail=...)\<close> is the left summand of a result.\<close>

datatype http_error = HTTPException (status_code: nat) (detail: string)

text \<open>
  What the store fills in when a row is inserted: the key it assigns and the column
  defaults, which \<^verbatim>\<open>models.py\<close> declares. They are parameters of the insert operations.
\<close>

record row_defaults =
  new_id :: int
  new_time :: int
  default_status :: "string option"
  default_is_active :: bool

section \<open>\<^verbatim>\<open>crud.py\<close>\<close>

text \<open>
  \<^verbatim>\<open>get_password_hash\<close> and \<^verbatim>\<open>verify_password\<close> come from \<^verbatim>\<open>app.auth\<close>; the
  functions that call them take them as parameters.
\<close>

definition create_user :: "(string \<Rightarrow> string) \<Rightarrow> row_defaults \<Rightarrow> db \<Rightarrow> UserCreate \<Rightarrow> user \<times> db" where
  "create_user get_password_hash dfl d u =
     (let db_user = \<lparr>user_id = new_id dfl, email = uc_email u, full_name = uc_full_name u,
                      hashed_password = get_password_hash (uc_password u),
                      is_active = default_is_active dfl, user_created_at = new_time dfl\<rparr>
      in (db_user, d\<lparr>users := users d @ [db_user]\<rparr>))"

definition get_user_by_email :: "db \<Rightarrow> string \<Rightarrow> user option" where
  "get_user_by_email d e = find (\<lambda>u. email u = e) (users d)"

text \<open>\<^verbatim>\<open>authenticate_user\<close> returns \<^verbatim>\<open>False\<close> (here \<open>None\<close>) or the user.\<close>

definition authenticate_user :: "(string \<Rightarrow> string \<Rightarrow> bool) \<Rightarrow> db \<Rightarrow> string \<Rightarrow> string \<Rightarrow> user option" where
  "authenticate_user verify_password d e password =
     (case get_user_by_email d e of
        None \<Rightarrow> None
      | Some u \<Rightarrow> if \<not> verify_password password (hashed_password u) then None else Some u)"

definition create_task :: "row_defaults \<Rightarrow> db \<Rightarrow> TaskCreate \<Rightarrow> int \<Rightarrow> task \<times> db" where
  "create_task dfl d t oid =
     (let db_task = \<lparr>task_id = new_id dfl, title = Some (tc_title t),
                      description = tc_description t, status = default_status dfl,
                      owner_id = oid, created_at = new_time dfl, updated_at = new_time dfl\<rparr>
      in (db_task, d\<lparr>tasks := tasks d @ [db_task]\<rparr>))"

definition get_user_tasks :: "db \<Rightarrow> int \<Rightarrow> nat \<Rightarrow> nat \<Rightarrow> task list" where
  "get_user_tasks d oid skip limit =
     take limit (drop skip (filter (\<lambda>t. owner_id t = oid) (tasks d)))"

text \<open>
  \<^verbatim>\<open>ilike\<close> is the store's case-insensitive pattern match of a column value against a
  pattern; it is a parameter. The pattern is built as the source builds it.
\<close>

definition search_tasks :: "(string option \<Rightarrow> string \<Rightarrow> bool) \<Rightarrow> db \<Rightarrow> int \<Rightarrow> string \<Rightarrow> task list" where
  "search_tasks ilike d oid search =
     filter (\<lambda>t. owner_id t = oid \<and> ilike (title t) (''%'' @ search @ ''%'')) (tasks d)"

definition get_task :: "db \<Rightarrow> int \<Rightarrow> int \<Rightarrow> task option" where
  "get_task d tid oid = find (\<lambda>t. task_id t = tid \<and> owner_id t = oid) (tasks d)"

text \<open>
  The object that \<^verbatim>\<open>get_task\<close> returns is the first row that passes its filter, and
  \<^verbatim>\<open>setattr\<close> and \<^verbatim>\<open>db.delete\<close> act on that row.
\<close>

fun update_first :: "('a \<Rightarrow> bool) \<Rightarrow> ('a \<Rightarrow> 'a) \<Rightarrow> 'a list \<Rightarrow> 'a list" where
  "update_first P f [] = []"
| "update_first P f (x # xs) = (if P x then f x # xs else x # update_first P f xs)"

fun delete_first :: "('a \<Rightarrow> bool) \<Rightarrow> 'a list \<Rightarrow> 'a list" where
  "delete_first P [] = []"
| "delete_first P (x # xs) = (if P x then xs else x # delete_first P xs)"

text \<open>
  The loop over \<^verbatim>\<open>task.model_dump(exclude_unset=True).items()\<close>: the fields the request
  carried, in declaration order, each assigned with \<^verbatim>\<open>setattr\<close>.
\<close>

definition set_fields :: "TaskUpdate \<Rightarrow> task \<Rightarrow> task" where
  "set_fields upd t =
     (let t1 = (case tu_title upd of None \<Rightarrow> t | Some v \<Rightarrow> t\<lparr>title := v\<rparr>);
          t2 = (case tu_description upd of None \<Rightarrow> t1 | Some v \<Rightarrow> t1\<lparr>description := v\<rparr>);
          t3 = (case tu_status upd of None \<Rightarrow> t2 | Some v \<Rightarrow> t2\<lparr>status := v\<rparr>)
      in t3)"

text \<open>
  \<^verbatim>\<open>db.commit()\<close> and \<^verbatim>\<open>db.refresh\<close> write the row back; what the store puts into
  \<open>updated_at\<close> then is the parameter \<open>onupdate\<close> (a function of the row as assigned).
\<close>

definition commit_row :: "(task \<Rightarrow> int) \<Rightarrow> task \<Rightarrow> task" where
  "commit_row onupdate t = t\<lparr>updated_at := onupdate t\<rparr>"

definition update_task :: "(task \<Rightarrow> int) \<Rightarrow> db \<Rightarrow> int \<Rightarrow> int \<Rightarrow> TaskUpdate \<Rightarrow> task option \<times> db" where
  "update_task onupdate d tid oid upd =
     (case get_task d tid oid of
        None \<Rightarrow> (None, d)
      | Some db_task \<Rightarrow>
          (Some (commit_row onupdate (set_fields upd db_task)),
           d\<lparr>tasks := update_first (\<lambda>t. task_id t = tid \<and> owner_id t = oid)
                          (\<lambda>t. commit_row onupdate (set_fields upd t)) (tasks d)\<rparr>))"

definition delete_task :: "db \<Rightarrow> int \<Rightarrow> int \<Rightarrow> bool \<times> db" where
  "delete_task d tid oid =
     (case get_task d tid oid of
        Some db_task \<Rightarrow>
          (True, d\<lparr>tasks := delete_first (\<lambda>t. task_id t = tid \<and> owner_id t = oid) (tasks d)\<rparr>)
      | None \<Rightarrow> (False, d))"

section \<open>\<^verbatim>\<open>dependencies.py\<close>\<close>

text \<open>
  \<^verbatim>\<open>decode_token\<close> comes from \<^verbatim>\<open>app.auth\<close> and is a parameter: it gives the subject
  of a token, or nothing. \<^verbatim>\<open>if not email\<close> holds for \<^verbatim>\<open>None\<close> and for the empty
  string.
\<close>

definition get_current_user :: "(string \<Rightarrow> string option) \<Rightarrow> db \<Rightarrow> string \<Rightarrow> http_error + user" where
  "get_current_user decode_token d token =
     (case decode_token token of
        None \<Rightarrow> Inl (HTTPException 401 ''Invalid authentication credentials'')
      | Some e \<Rightarrow>
          if e = [] then Inl (HTTPException 401 ''Invalid authentication credentials'')
          else (case find (\<lambda>u. email u = e) (users d) of
                  None \<Rightarrow> Inl (HTTPException 401 ''User not found'')
                | Some u \<Rightarrow> Inr u))"

section \<open>\<^verbatim>\<open>routes/auth.py\<close>\<close>

definition register :: "(string \<Rightarrow> string) \<Rightarrow> row_defaults \<Rightarrow> db \<Rightarrow> UserCreate \<Rightarrow> (http_error + user) \<times> db" where
  "register get_password_hash dfl d u =
     (case get_user_by_email d (uc_email u) of
        Some _ \<Rightarrow> (Inl (HTTPException 400 ''Email already registered''), d)
      | None \<Rightarrow> (let (db_user, d') = create_user get_password_hash dfl d u in (Inr db_user, d')))"

text \<open>
  \<^verbatim>\<open>create_access_token\<close> comes from \<^verbatim>\<open>app.auth\<close> and is a parameter: from the subject
  and the lifetime in minutes to the token.
\<close>

definition login :: "(string \<Rightarrow> string \<Rightarrow> bool) \<Rightarrow> (string \<Rightarrow> int \<Rightarrow> string) \<Rightarrow> Settings \<Rightarrow> db \<Rightarrow> LoginRequest \<Rightarrow> http_error + Token" where
  "login verify_password create_access_token settings d credentials =
     (case authenticate_user verify_password d (lr_email credentials) (lr_password credentials) of
        None \<Rightarrow> Inl (HTTPException 401 ''Invalid credentials'')
      | Some u \<Rightarrow>
          Inr \<lparr>access_token = create_access_token (email u) (ACCESS_TOKEN_EXPIRE_MINUTES settings),
               token_type = ''bearer''\<rparr>)"

section \<open>\<^verbatim>\<open>routes/tasks.py\<close>\<close>

text \<open>Each route takes the user that \<^verbatim>\<open>get_current_user\<close> resolved.\<close>

definition create_new_task :: "row_defaults \<Rightarrow> db \<Rightarrow> user \<Rightarrow> TaskCreate \<Rightarrow> task \<times> db" where
  "create_new_task dfl d current_user t = create_task dfl d t (user_id current_user)"

text \<open>\<^verbatim>\<open>if search\<close> fails for \<^verbatim>\<open>None\<close> and for the empty string.\<close>

definition list_tasks :: "(string option \<Rightarrow> string \<Rightarrow> bool) \<Rightarrow> db \<Rightarrow> user \<Rightarrow> string option \<Rightarrow> task list" where
  "list_tasks ilike d current_user search =
     (case search of
        None \<Rightarrow> get_user_tasks d (user_id current_user) 0 100
      | Some s \<Rightarrow>
          if s \<noteq> [] then search_tasks ilike d (user_id current_user) s
          else get_user_tasks d (user_id current_user) 0 100)"

definition get_single_task :: "db \<Rightarrow> user \<Rightarrow> int \<Rightarrow> http_error + task" where
  "get_single_task d current_user tid =
     (case get_task d tid (user_id current_user) of
        None \<Rightarrow> Inl (HTTPException 404 ''Task not found'')
      | Some t \<Rightarrow> Inr t)"

definition update_single_task :: "(task \<Rightarrow> int) \<Rightarrow> db \<Rightarrow> user \<Rightarrow> int \<Rightarrow> TaskUpdate \<Rightarrow> (http_error + task) \<times> db" where
  "update_single_task onupdate d current_user tid task_update =
     (case update_task onupdate d tid (user_id current_user) task_update of
        (None, d') \<Rightarrow> (Inl (HTTPException 404 ''Task not found''), d')
      | (Some t, d') \<Rightarrow> (Inr t, d'))"

definition delete_single_task :: "db \<Rightarrow> user \<Rightarrow> int \<Rightarrow> (http_error + string) \<times> db" where
  "delete_single_task d current_user tid =
     (case delete_task d tid (user_id current_user) of
        (False, d') \<Rightarrow> (Inl (HTTPException 404 ''Task not found''), d')
      | (True, d') \<Rightarrow> (Inr ''Task deleted successfully'', d'))"

section \<open>Token service\<close>

text \<open>
  Modelled from the spec: the Token Service, that is \<^verbatim>\<open>create_access_token\<close> and
  \<^verbatim>\<open>decode_token\<close> of \<^verbatim>\<open>app/auth.py\<close>, which is not among the sources. The spec
  (4.2): \<^verbatim>\<open>issue(subject, ttl)\<close> "produces a signed token whose payload states the
  subject identifier and an absolute expiry = now + ttl"; \<^verbatim>\<open>verify(token)\<close>: "if
  signature invalid, or payload malformed, or current time \<ge> expiry, returns invalid".
  The signing scheme is the parameter \<open>sign\<close> (from the key and the payload to the
  signature); the clock is the parameter \<open>now\<close>.
\<close>

datatype jwt = Malformed string | Signed (jwt_sub: string) (jwt_exp: int) (jwt_sig: string)

definition issue :: "(string \<Rightarrow> string \<times> int \<Rightarrow> string) \<Rightarrow> string \<Rightarrow> int \<Rightarrow> string \<Rightarrow> int \<Rightarrow> jwt" where
  "issue sign key now subject ttl =
     Signed subject (now + ttl) (sign key (subject, now + ttl))"

definition verify :: "(string \<Rightarrow> string \<times> int \<Rightarrow> string) \<Rightarrow> string \<Rightarrow> int \<Rightarrow> jwt \<Rightarrow> string option" where
  "verify sign key now tok =
     (case tok of
        Malformed _ \<Rightarrow> None
      | Signed subject expiry sg \<Rightarrow>
          if sg \<noteq> sign key (subject, expiry) then None
          else if now \<ge> expiry then None
          else Some subject)"

section \<open>Changing the active flags\<close>

text \<open>
  The store with the \<open>is_active\<close> column rewritten by \<open>f\<close> and every other column
  kept. It states that an operation does not read the flag.
\<close>

definition with_flags :: "(user \<Rightarrow> bool) \<Rightarrow> db \<Rightarrow> db" where
  "with_flags f d = d\<lparr>users := map (\<lambda>u. u\<lparr>is_active := f u\<rparr>) (users d)\<rparr>"

section \<open>Sample instances\<close>

text \<open>
  Concrete collaborators and stores, on which the operations are evaluated. None of the
  general theorems depends on them.
\<close>

definition sample_hash :: "string \<Rightarrow> string" where
  "sample_hash p = ''$'' @ rev p"

definition sample_verify :: "string \<Rightarrow> string \<Rightarrow> bool" where
  "sample_verify p h = (h = sample_hash p)"

definition sample_token :: "string \<Rightarrow> int \<Rightarrow> string" where
  "sample_token subject minutes = ''tok:'' @ subject"

definition sample_decode :: "string \<Rightarrow> string option" where
  "sample_decode t = (if take 4 t = ''tok:'' then Some (drop 4 t) else None)"

definition sample_sign :: "string \<Rightarrow> string \<times> int \<Rightarrow> string" where
  "sample_sign key payload = key @ ''|'' @ fst payload"

text \<open>
  A pattern match in the manner of SQLite's \<^verbatim>\<open>LIKE\<close>: \<^verbatim>\<open>%\<close> stands for any run
  of characters, \<^verbatim>\<open>_\<close> for any one character, and ASCII letters match without regard
  to case. A null column matches nothing.
\<close>

definition lower_ascii :: "char \<Rightarrow> char" where
  "lower_ascii c =
     (let n = (of_char c :: nat) in if 65 \<le> n \<and> n \<le> 90 then char_of (n + 32) else c)"

fun like_match :: "string \<Rightarrow> string \<Rightarrow> bool" where
  "like_match [] s = (s = [])"
| "like_match (p # ps) [] = (p = CHR ''%'' \<and> like_match ps [])"
| "like_match (p # ps) (c # cs) =
     (if p = CHR ''%'' then like_match ps (c # cs) \<or> like_match (p # ps) cs
      else (p = CHR ''_'' \<or> p = c) \<and> like_match ps cs)"

definition sample_ilike :: "string option \<Rightarrow> string \<Rightarrow> bool" where
  "sample_ilike col pat =
     (case col of None \<Rightarrow> False
      | Some s \<Rightarrow> like_match (map lower_ascii pat) (map lower_ascii s))"

definition sample_onupdate :: "task \<Rightarrow> int" where
  "sample_onupdate t = updated_at t + 1"

definition status_done :: TaskUpdate where
  "status_done = \<lparr>tu_title = None, tu_description = None, tu_status = Some (Some ''done'')\<rparr>"

definition sample_settings :: Settings where
  "sample_settings = \<lparr>SECRET_KEY = ''your-secret-key-change-in-production'',
                       ACCESS_TOKEN_EXPIRE_MINUTES = 30\<rparr>"

definition sample_defaults :: row_defaults where
  "sample_defaults = \<lparr>new_id = 7, new_time = 1000, default_status = Some ''pending'',
                       default_is_active = True\<rparr>"

definition alice :: user where
  "alice = \<lparr>user_id = 1, email = ''alice@example.com'', full_name = ''Alice'',
             hashed_password = sample_hash ''wonderland'', is_active = False,
             user_created_at = 10\<rparr>"

definition bob :: user where
  "bob = \<lparr>user_id = 2, email = ''bob@example.com'', full_name = ''Bob'',
           hashed_password = sample_hash ''builder'', is_active = True,
           user_created_at = 20\<rparr>"

definition task_a :: task where
  "task_a = \<lparr>task_id = 1, title = Some ''Buy milk'', description = None,
              status = Some ''pending'', owner_id = 1, created_at = 30, updated_at = 30\<rparr>"

definition task_b :: task where
  "task_b = \<lparr>task_id = 2, title = Some ''Fix roof'', description = Some ''before winter'',
              status = Some ''pending'', owner_id = 2, created_at = 40, updated_at = 40\<rparr>"

definition sample_db :: db where
  "sample_db = \<lparr>users = [alice, bob], tasks = [task_a, task_b]\<rparr>"

definition empty_db :: db where
  "empty_db = \<lparr>users = [], tasks = []\<rparr>"

text \<open>The same users, and only the first task.\<close>

definition one_task_db :: db where
  "one_task_db = \<lparr>users = [alice, bob], tasks = [task_a]\<rparr>"

text \<open>One user who owns 101 tasks.\<close>

definition crowded_db :: db where
  "crowded_db = \<lparr>users = [alice], tasks = map (\<lambda>i. task_a\<lparr>task_id := int i\<rparr>) [0..<101]\<rparr>"

section \<open>Task creation\<close>

text \<open>
  C3. For every authenticated requester and every create-task request, the task that
  the create operation persists has \<open>owner_id\<close> equal to the requester's user id: the
  returned row is the one appended to the table, its owner is \<open>user_id current_user\<close>,
  and the owner does not depend on the request body (\<^verbatim>\<open>TaskCreate\<close> has no owner field).
\<close>

theorem create_new_task_owner:
  "owner_id (fst (create_new_task dfl d current_user body)) = user_id current_user
   \<and> tasks (snd (create_new_task dfl d current_user body))
       = tasks d @ [fst (create_new_task dfl d current_user body)]
   \<and> owner_id (fst (create_new_task dfl d current_user body))
       = owner_id (fst (create_new_task dfl d current_user body'))"
  by (simp add: create_new_task_def create_task_def Let_def)

section \<open>Login\<close>

lemma authenticate_user_unknown:
  "get_user_by_email d e = None \<Longrightarrow> authenticate_user vp d e p = None"
  by (simp add: authenticate_user_def)

lemma authenticate_user_known:
  "get_user_by_email d e = Some u \<Longrightarrow>
   authenticate_user vp d e p = (if vp p (hashed_password u) then Some u else None)"
  by (simp add: authenticate_user_def)

text \<open>
  C4. For every login request: if the email matches no stored user, or a user is found
  but password verification against the stored hash fails, login raises the same
  failure (401, "Invalid credentials") in both cases; if both checks succeed, login
  returns a token together with the token-type marker "bearer".
\<close>

theorem login_outcomes:
  "(get_user_by_email d e = None \<longrightarrow>
      login vp cat s d \<lparr>lr_email = e, lr_password = p\<rparr>
        = Inl (HTTPException 401 ''Invalid credentials''))
   \<and> (get_user_by_email d e = Some u \<and> \<not> vp p (hashed_password u) \<longrightarrow>
      login vp cat s d \<lparr>lr_email = e, lr_password = p\<rparr>
        = Inl (HTTPException 401 ''Invalid credentials''))
   \<and> (get_user_by_email d e = Some u \<and> vp p (hashed_password u) \<longrightarrow>
      login vp cat s d \<lparr>lr_email = e, lr_password = p\<rparr>
        = Inr \<lparr>access_token = cat (email u) (ACCESS_TOKEN_EXPIRE_MINUTES s),
                token_type = ''bearer''\<rparr>)"
  by (simp add: login_def authenticate_user_unknown authenticate_user_known)

theorem login_outcomes_witness:
  "get_user_by_email sample_db ''carol@example.com'' = None
   \<and> login sample_verify sample_token sample_settings sample_db
        \<lparr>lr_email = ''carol@example.com'', lr_password = ''builder''\<rparr>
       = Inl (HTTPException 401 ''Invalid credentials'')
   \<and> get_user_by_email sample_db ''bob@example.com'' = Some bob
   \<and> \<not> sample_verify ''guess'' (hashed_password bob)
   \<and> login sample_verify sample_token sample_settings sample_db
        \<lparr>lr_email = ''bob@example.com'', lr_password = ''guess''\<rparr>
       = Inl (HTTPException 401 ''Invalid credentials'')
   \<and> sample_verify ''builder'' (hashed_password bob)
   \<and> login sample_verify sample_token sample_settings sample_db
        \<lparr>lr_email = ''bob@example.com'', lr_password = ''builder''\<rparr>
       = Inr \<lparr>access_token = ''tok:bob@example.com'', token_type = ''bearer''\<rparr>"
proof -
  have none: "get_user_by_email sample_db ''carol@example.com'' = None"
    by (simp add: get_user_by_email_def sample_db_def alice_def bob_def)
  have some: "get_user_by_email sample_db ''bob@example.com'' = Some bob"
    by (simp add: get_user_by_email_def sample_db_def alice_def bob_def)
  have bad: "\<not> sample_verify ''guess'' (hashed_password bob)"
    by (simp add: sample_verify_def sample_hash_def bob_def)
  have good: "sample_verify ''builder'' (hashed_password bob)"
    by (simp add: sample_verify_def sample_hash_def bob_def)
  have tok: "sample_token (email bob) (ACCESS_TOKEN_EXPIRE_MINUTES sample_settings)
               = ''tok:bob@example.com''"
    by (simp add: sample_token_def bob_def)
  show ?thesis
    using none some bad good tok
      login_outcomes [of sample_db "''carol@example.com''" sample_verify sample_token
        sample_settings "''builder''" bob]
      login_outcomes [of sample_db "''bob@example.com''" sample_verify sample_token
        sample_settings "''guess''" bob]
      login_outcomes [of sample_db "''bob@example.com''" sample_verify sample_token
        sample_settings "''builder''" bob]
    by simp
qed

section \<open>Registration\<close>

lemma get_user_by_email_present:
  "u \<in> set (users d) \<Longrightarrow> email u = e \<Longrightarrow> \<exists>v. get_user_by_email d e = Some v"
  unfolding get_user_by_email_def
  by (cases "find (\<lambda>u. email u = e) (users d)") (auto simp: find_None_iff)

text \<open>
  C5. For every store in which a user with email \<open>e\<close> exists, register with email \<open>e\<close>
  fails (400, "Email already registered": the conflict outcome) and leaves the store as
  it was: no insert occurs and every stored user record is untouched.
\<close>

theorem register_conflict:
  "u \<in> set (users d) \<and> email u = uc_email req \<longrightarrow>
     register gph dfl d req = (Inl (HTTPException 400 ''Email already registered''), d)"
proof
  assume h: "u \<in> set (users d) \<and> email u = uc_email req"
  then obtain v where "get_user_by_email d (uc_email req) = Some v"
    using get_user_by_email_present by blast
  then show "register gph dfl d req = (Inl (HTTPException 400 ''Email already registered''), d)"
    by (simp add: register_def)
qed

theorem register_conflict_witness:
  "alice \<in> set (users sample_db)
   \<and> email alice = uc_email \<lparr>uc_email = ''alice@example.com'', uc_full_name = ''Mallory'',
                              uc_password = ''hunter2''\<rparr>
   \<and> register sample_hash sample_defaults sample_db
        \<lparr>uc_email = ''alice@example.com'', uc_full_name = ''Mallory'', uc_password = ''hunter2''\<rparr>
       = (Inl (HTTPException 400 ''Email already registered''), sample_db)"
proof -
  have h: "alice \<in> set (users sample_db)
           \<and> email alice = uc_email \<lparr>uc_email = ''alice@example.com'',
                uc_full_name = ''Mallory'', uc_password = ''hunter2''\<rparr>"
    by (simp add: sample_db_def alice_def)
  show ?thesis
    using h register_conflict [of alice sample_db
        "\<lparr>uc_email = ''alice@example.com'', uc_full_name = ''Mallory'', uc_password = ''hunter2''\<rparr>"
        sample_hash sample_defaults]
    by simp
qed

section \<open>The ownership gate\<close>

lemma get_task_absent:
  "(\<And>t. t \<in> set (tasks d) \<Longrightarrow> task_id t = tid \<Longrightarrow> owner_id t \<noteq> oid) \<Longrightarrow>
   get_task d tid oid = None"
  by (auto simp: get_task_def find_None_iff)

lemma get_task_owner: "get_task d tid oid = Some t \<Longrightarrow> task_id t = tid \<and> owner_id t = oid"
  by (auto simp: get_task_def find_Some_iff)

lemma unique_task_id:
  "distinct (map task_id ts) \<Longrightarrow> t \<in> set ts \<Longrightarrow> x \<in> set ts \<Longrightarrow> task_id x = task_id t \<Longrightarrow> x = t"
  by (auto simp: distinct_map inj_on_def)

lemma not_found_get:
  "get_task d tid (user_id cu) = None \<Longrightarrow>
   get_single_task d cu tid = Inl (HTTPException 404 ''Task not found'')"
  by (simp add: get_single_task_def)

lemma not_found_update:
  "get_task d tid (user_id cu) = None \<Longrightarrow>
   update_single_task ou d cu tid upd = (Inl (HTTPException 404 ''Task not found''), d)"
  by (simp add: update_single_task_def update_task_def)

lemma not_found_delete:
  "get_task d tid (user_id cu) = None \<Longrightarrow>
   delete_single_task d cu tid = (Inl (HTTPException 404 ''Task not found''), d)"
  by (simp add: delete_single_task_def delete_task_def)

text \<open>
  C1. For every requester \<open>cu\<close> and task id \<open>tid\<close>: in a store \<open>d1\<close> with no task of
  that id, and in a store \<open>d2\<close> (task ids being a key) where the task of that id belongs
  to someone else, the read, update and delete operations all raise the same error
  (404, "Task not found"), and leave the store as it was. The response is the same value
  in both stores, so it does not tell "exists but not yours" from "does not exist".
\<close>

theorem task_not_found_uniform:
  assumes absent: "\<forall>x\<in>set (tasks d1). task_id x \<noteq> tid"
    and keys: "distinct (map task_id (tasks d2))"
    and foreign: "t \<in> set (tasks d2)" "task_id t = tid" "owner_id t \<noteq> user_id cu"
  shows "get_single_task d1 cu tid = Inl (HTTPException 404 ''Task not found'')
       \<and> get_single_task d2 cu tid = Inl (HTTPException 404 ''Task not found'')
       \<and> update_single_task ou d1 cu tid upd = (Inl (HTTPException 404 ''Task not found''), d1)
       \<and> update_single_task ou d2 cu tid upd = (Inl (HTTPException 404 ''Task not found''), d2)
       \<and> delete_single_task d1 cu tid = (Inl (HTTPException 404 ''Task not found''), d1)
       \<and> delete_single_task d2 cu tid = (Inl (HTTPException 404 ''Task not found''), d2)"
proof -
  have n1: "get_task d1 tid (user_id cu) = None"
    using absent by (intro get_task_absent) auto
  have n2: "get_task d2 tid (user_id cu) = None"
  proof (rule get_task_absent)
    fix x assume "x \<in> set (tasks d2)" "task_id x = tid"
    then have "x = t" using keys foreign(1,2) unique_task_id by metis
    then show "owner_id x \<noteq> user_id cu" using foreign(3) by simp
  qed
  show ?thesis
    by (simp add: not_found_get [OF n1] not_found_get [OF n2] not_found_update [OF n1]
        not_found_update [OF n2] not_found_delete [OF n1] not_found_delete [OF n2])
qed

theorem task_not_found_uniform_witness:
  "2 \<notin> set (map task_id (tasks one_task_db))
   \<and> distinct (map task_id (tasks sample_db))
   \<and> task_b \<in> set (tasks sample_db) \<and> task_id task_b = 2 \<and> owner_id task_b \<noteq> user_id alice
   \<and> get_single_task one_task_db alice 2 = get_single_task sample_db alice 2
   \<and> get_single_task sample_db alice 2 = Inl (HTTPException 404 ''Task not found'')
   \<and> fst (update_single_task sample_onupdate one_task_db alice 2 status_done)
       = fst (update_single_task sample_onupdate sample_db alice 2 status_done)
   \<and> snd (update_single_task sample_onupdate sample_db alice 2 status_done) = sample_db
   \<and> fst (delete_single_task one_task_db alice 2) = fst (delete_single_task sample_db alice 2)
   \<and> snd (delete_single_task sample_db alice 2) = sample_db"
proof -
  have a: "\<forall>x\<in>set (tasks one_task_db). task_id x \<noteq> 2"
    by (simp add: one_task_db_def task_a_def)
  have a': "2 \<notin> set (map task_id (tasks one_task_db))"
    by (simp add: one_task_db_def task_a_def)
  have k: "distinct (map task_id (tasks sample_db))"
    by (simp add: sample_db_def task_a_def task_b_def)
  have f: "task_b \<in> set (tasks sample_db)" "task_id task_b = 2"
    "owner_id task_b \<noteq> user_id alice"
    by (simp_all add: sample_db_def task_b_def alice_def)
  show ?thesis
    using a' k f task_not_found_uniform [OF a k f, of sample_onupdate status_done]
    by simp
qed

section \<open>Partial update\<close>

lemma find_update_first:
  "find P xs = Some t \<Longrightarrow> P (f t) \<Longrightarrow> find P (update_first P f xs) = Some (f t)"
  by (induction xs) (auto split: if_splits)

lemma set_fields_frame:
  "task_id (set_fields upd t) = task_id t \<and> owner_id (set_fields upd t) = owner_id t
   \<and> created_at (set_fields upd t) = created_at t"
  by (simp add: set_fields_def Let_def split: option.splits)

lemma set_fields_title:
  "title (set_fields upd t) = (case tu_title upd of None \<Rightarrow> title t | Some v \<Rightarrow> v)"
  by (simp add: set_fields_def Let_def split: option.splits)

lemma set_fields_description:
  "description (set_fields upd t)
     = (case tu_description upd of None \<Rightarrow> description t | Some v \<Rightarrow> v)"
  by (simp add: set_fields_def Let_def split: option.splits)

lemma set_fields_status:
  "status (set_fields upd t) = (case tu_status upd of None \<Rightarrow> status t | Some v \<Rightarrow> v)"
  by (simp add: set_fields_def Let_def split: option.splits)

text \<open>
  C6. For every task \<open>t\<close> that the requester owns and every update request, the update
  returns and stores a task \<open>t'\<close> in which each of title, description and status is the
  request's value if the request carried the field, and the stored value of \<open>t\<close> if it
  did not; the id, the owner and the creation time are those of \<open>t\<close>. So an update that
  carries only a status leaves title and description as they were.
\<close>

theorem update_partial:
  assumes owned: "get_task d tid (user_id cu) = Some t"
  shows "\<exists>t'. fst (update_single_task ou d cu tid upd) = Inr t'
           \<and> get_task (snd (update_single_task ou d cu tid upd)) tid (user_id cu) = Some t'
           \<and> title t' = (case tu_title upd of None \<Rightarrow> title t | Some v \<Rightarrow> v)
           \<and> description t' = (case tu_description upd of None \<Rightarrow> description t | Some v \<Rightarrow> v)
           \<and> status t' = (case tu_status upd of None \<Rightarrow> status t | Some v \<Rightarrow> v)
           \<and> task_id t' = task_id t \<and> owner_id t' = owner_id t \<and> created_at t' = created_at t"
proof -
  let ?t' = "commit_row ou (set_fields upd t)"
  have key: "task_id ?t' = tid \<and> owner_id ?t' = user_id cu"
    using get_task_owner [OF owned] by (simp add: commit_row_def set_fields_frame)
  have res: "update_single_task ou d cu tid upd =
      (Inr ?t', d\<lparr>tasks := update_first (\<lambda>t. task_id t = tid \<and> owner_id t = user_id cu)
                     (\<lambda>t. commit_row ou (set_fields upd t)) (tasks d)\<rparr>)"
    using owned by (simp add: update_single_task_def update_task_def)
  have stored: "get_task (snd (update_single_task ou d cu tid upd)) tid (user_id cu) = Some ?t'"
    using owned key unfolding res get_task_def
    by (simp add: find_update_first)
  show ?thesis
    using res stored
    by (simp add: commit_row_def set_fields_frame set_fields_title set_fields_description
        set_fields_status)
qed

theorem update_partial_witness:
  "get_task sample_db 1 (user_id alice) = Some task_a
   \<and> (\<exists>t'. fst (update_single_task sample_onupdate sample_db alice 1 status_done) = Inr t'
         \<and> get_task (snd (update_single_task sample_onupdate sample_db alice 1 status_done))
             1 (user_id alice) = Some t'
         \<and> title t' = Some ''Buy milk'' \<and> description t' = None \<and> status t' = Some ''done'')"
proof -
  have h: "get_task sample_db 1 (user_id alice) = Some task_a"
    by (simp add: get_task_def sample_db_def task_a_def task_b_def alice_def)
  have v: "title task_a = Some ''Buy milk''" "description task_a = None"
    by (simp_all add: task_a_def)
  show ?thesis
    using h v update_partial [OF h, of sample_onupdate status_done]
    by (auto simp: status_done_def)
qed

section \<open>Identity resolution\<close>

text \<open>
  C2, as the claim states it, fails: with no user stored, a token that does not decode
  and a token that decodes to an unknown subject get different responses.
\<close>

theorem unauthorized_bodies_differ:
  "get_current_user sample_decode empty_db ''garbage''
     \<noteq> get_current_user sample_decode empty_db ''tok:ghost@example.com''"
  by (simp add: get_current_user_def sample_decode_def empty_db_def)

text \<open>
  C2, amended. When identity resolution fails, the error has status 401 whatever the
  cause. The detail differs with the cause: "Invalid authentication credentials" when
  the token does not decode to a non-empty subject, "User not found" when the subject
  matches no stored user.
\<close>

theorem unauthorized_status:
  "(decode_token token = None \<or> decode_token token = Some [] \<longrightarrow>
      get_current_user decode_token d token
        = Inl (HTTPException 401 ''Invalid authentication credentials''))
   \<and> (decode_token token = Some e \<and> e \<noteq> [] \<and> find (\<lambda>u. email u = e) (users d) = None \<longrightarrow>
      get_current_user decode_token d token = Inl (HTTPException 401 ''User not found''))
   \<and> ((decode_token token = None \<or> decode_token token = Some []
        \<or> (\<exists>e. decode_token token = Some e \<and> find (\<lambda>u. email u = e) (users d) = None)) \<longrightarrow>
      (\<exists>err. get_current_user decode_token d token = Inl err \<and> status_code err = 401))"
  by (auto simp: get_current_user_def)

theorem unauthorized_status_witness:
  "sample_decode ''garbage'' = None
   \<and> get_current_user sample_decode sample_db ''garbage''
       = Inl (HTTPException 401 ''Invalid authentication credentials'')
   \<and> sample_decode ''tok:ghost@example.com'' = Some ''ghost@example.com''
   \<and> ''ghost@example.com'' \<noteq> []
   \<and> find (\<lambda>u. email u = ''ghost@example.com'') (users sample_db) = None
   \<and> get_current_user sample_decode sample_db ''tok:ghost@example.com''
       = Inl (HTTPException 401 ''User not found'')"
proof -
  have a: "sample_decode ''garbage'' = None"
    by (simp add: sample_decode_def)
  have b: "sample_decode ''tok:ghost@example.com'' = Some ''ghost@example.com''"
    by (simp add: sample_decode_def)
  have c: "find (\<lambda>u. email u = ''ghost@example.com'') (users sample_db) = None"
    by (simp add: sample_db_def alice_def bob_def)
  show ?thesis
    using a b c
      unauthorized_status [of sample_decode "''garbage''" sample_db "''ghost@example.com''"]
      unauthorized_status [of sample_decode "''tok:ghost@example.com''" sample_db
        "''ghost@example.com''"]
    by simp
qed

section \<open>Listing and searching\<close>

lemma ilike_milk: "sample_ilike (Some ''Buy milk'') (''%'' @ ''MILK'' @ ''%'')"
  by code_simp

text \<open>
  C7. For every requester and every store, each task that the list route returns, with
  a search term or without, has \<open>owner_id\<close> equal to the requester's id.
\<close>

theorem list_tasks_owned:
  "\<forall>t\<in>set (list_tasks ilike d current_user search). owner_id t = user_id current_user"
  by (auto simp: list_tasks_def get_user_tasks_def search_tasks_def
      split: option.splits dest: in_set_takeD)

theorem list_tasks_owned_witness:
  "list_tasks sample_ilike sample_db alice (Some ''MILK'') = [task_a]
   \<and> owner_id task_a = user_id alice
   \<and> list_tasks sample_ilike sample_db bob None = [task_b]
   \<and> owner_id task_b = user_id bob"
proof -
  have s: "list_tasks sample_ilike sample_db alice (Some ''MILK'') = [task_a]"
    using ilike_milk
    by (simp add: list_tasks_def search_tasks_def sample_db_def task_a_def task_b_def alice_def)
  have l: "list_tasks sample_ilike sample_db bob None = [task_b]"
    by (simp add: list_tasks_def get_user_tasks_def sample_db_def task_a_def task_b_def bob_def)
  show ?thesis
    using s l list_tasks_owned [of sample_ilike sample_db alice "Some ''MILK''"]
      list_tasks_owned [of sample_ilike sample_db bob None]
    by simp
qed

text \<open>
  C10. Without a search term (none, or the empty string) the list route returns the
  first 100 of the requester's tasks and no more: the route calls \<^verbatim>\<open>get_user_tasks\<close>
  with the defaults \<open>skip = 0\<close> and \<open>limit = 100\<close>. A requester who owns more than 100
  tasks gets exactly 100, fewer than they own. With a non-empty search term the route
  returns every task of the requester whose title matches, with no limit.
\<close>

theorem list_tasks_limit:
  "list_tasks ilike d cu None = take 100 (filter (\<lambda>t. owner_id t = user_id cu) (tasks d))
   \<and> list_tasks ilike d cu (Some []) = list_tasks ilike d cu None
   \<and> length (list_tasks ilike d cu None) \<le> 100
   \<and> (100 < length (filter (\<lambda>t. owner_id t = user_id cu) (tasks d)) \<longrightarrow>
        length (list_tasks ilike d cu None) = 100
        \<and> length (list_tasks ilike d cu None)
            < length (filter (\<lambda>t. owner_id t = user_id cu) (tasks d)))
   \<and> (s \<noteq> [] \<longrightarrow>
        list_tasks ilike d cu (Some s)
          = filter (\<lambda>t. owner_id t = user_id cu \<and> ilike (title t) (''%'' @ s @ ''%''))
              (tasks d))"
  by (simp add: list_tasks_def get_user_tasks_def search_tasks_def)

theorem list_tasks_limit_witness:
  "100 < length (filter (\<lambda>t. owner_id t = user_id alice) (tasks crowded_db))
   \<and> length (list_tasks sample_ilike crowded_db alice None) = 100
   \<and> ''MILK'' \<noteq> []
   \<and> length (list_tasks sample_ilike crowded_db alice (Some ''MILK'')) = 101"
proof -
  have own: "filter (\<lambda>t. owner_id t = user_id alice) (tasks crowded_db) = tasks crowded_db"
    by (simp add: crowded_db_def task_a_def alice_def)
  have hit: "filter (\<lambda>t. owner_id t = user_id alice
                \<and> sample_ilike (title t) (''%'' @ ''MILK'' @ ''%'')) (tasks crowded_db)
             = tasks crowded_db"
    using ilike_milk by (simp add: crowded_db_def task_a_def alice_def)
  have n: "length (tasks crowded_db) = 101"
    by (simp add: crowded_db_def)
  show ?thesis
    using own hit n list_tasks_limit [of sample_ilike crowded_db alice "''MILK''"]
    by simp
qed

section \<open>The active flag\<close>

lemma find_email_flags:
  "find (\<lambda>u. email u = e) (map (\<lambda>u. u\<lparr>is_active := f u\<rparr>) us)
     = map_option (\<lambda>u. u\<lparr>is_active := f u\<rparr>) (find (\<lambda>u. email u = e) us)"
  by (induction us) auto

lemma login_flags: "login vp cat s (with_flags f d) c = login vp cat s d c"
  by (cases "find (\<lambda>u. email u = lr_email c) (users d)")
     (simp_all add: login_def authenticate_user_def get_user_by_email_def with_flags_def
        find_email_flags)

lemma resolve_flags:
  "get_current_user dec (with_flags f d) tok
     = map_sum (\<lambda>x. x) (\<lambda>u. u\<lparr>is_active := f u\<rparr>) (get_current_user dec d tok)"
  by (simp add: get_current_user_def with_flags_def find_email_flags
      split: option.splits)

text \<open>
  C9. No operation reads the active flag. Rewriting the flags of the stored users
  leaves the result of login as it was, and changes the result of identity resolution
  only in the flag of the user returned; the task routes give the same result for a
  requester whatever the requester's flag. In particular, for a stored user whose flag
  is false, login with the right password returns a token, and a token whose subject is
  that user's email resolves to that user.
\<close>

theorem is_active_ignored:
  "login vp cat s (with_flags f d) c = login vp cat s d c
   \<and> get_current_user dec (with_flags f d) tok
       = map_sum (\<lambda>x. x) (\<lambda>u. u\<lparr>is_active := f u\<rparr>) (get_current_user dec d tok)
   \<and> create_new_task dfl d (u\<lparr>is_active := b\<rparr>) body = create_new_task dfl d u body
   \<and> list_tasks ilike d (u\<lparr>is_active := b\<rparr>) search = list_tasks ilike d u search
   \<and> get_single_task d (u\<lparr>is_active := b\<rparr>) tid = get_single_task d u tid
   \<and> update_single_task ou d (u\<lparr>is_active := b\<rparr>) tid upd = update_single_task ou d u tid upd
   \<and> delete_single_task d (u\<lparr>is_active := b\<rparr>) tid = delete_single_task d u tid
   \<and> (get_user_by_email d e = Some u \<and> \<not> is_active u \<and> vp p (hashed_password u) \<longrightarrow>
        login vp cat s d \<lparr>lr_email = e, lr_password = p\<rparr>
          = Inr \<lparr>access_token = cat (email u) (ACCESS_TOKEN_EXPIRE_MINUTES s),
                  token_type = ''bearer''\<rparr>)
   \<and> (dec tok = Some e \<and> e \<noteq> [] \<and> find (\<lambda>x. email x = e) (users d) = Some u
        \<and> \<not> is_active u \<longrightarrow>
        get_current_user dec d tok = Inr u)"
proof -
  have ops: "create_new_task dfl d (u\<lparr>is_active := b\<rparr>) body = create_new_task dfl d u body
     \<and> list_tasks ilike d (u\<lparr>is_active := b\<rparr>) search = list_tasks ilike d u search
     \<and> get_single_task d (u\<lparr>is_active := b\<rparr>) tid = get_single_task d u tid
     \<and> update_single_task ou d (u\<lparr>is_active := b\<rparr>) tid upd = update_single_task ou d u tid upd
     \<and> delete_single_task d (u\<lparr>is_active := b\<rparr>) tid = delete_single_task d u tid"
    by (simp add: create_new_task_def list_tasks_def get_single_task_def
        update_single_task_def delete_single_task_def split: option.splits)
  have lg: "get_user_by_email d e = Some u \<and> \<not> is_active u \<and> vp p (hashed_password u) \<longrightarrow>
        login vp cat s d \<lparr>lr_email = e, lr_password = p\<rparr>
          = Inr \<lparr>access_token = cat (email u) (ACCESS_TOKEN_EXPIRE_MINUTES s),
                  token_type = ''bearer''\<rparr>"
    by (simp add: login_def authenticate_user_def)
  have rs: "dec tok = Some e \<and> e \<noteq> [] \<and> find (\<lambda>x. email x = e) (users d) = Some u
        \<and> \<not> is_active u \<longrightarrow>
        get_current_user dec d tok = Inr u"
    by (simp add: get_current_user_def)
  show ?thesis
    using ops lg rs login_flags resolve_flags by blast
qed

theorem is_active_ignored_witness:
  "get_user_by_email sample_db ''alice@example.com'' = Some alice
   \<and> \<not> is_active alice
   \<and> sample_verify ''wonderland'' (hashed_password alice)
   \<and> login sample_verify sample_token sample_settings sample_db
        \<lparr>lr_email = ''alice@example.com'', lr_password = ''wonderland''\<rparr>
       = Inr \<lparr>access_token = ''tok:alice@example.com'', token_type = ''bearer''\<rparr>
   \<and> sample_decode ''tok:alice@example.com'' = Some ''alice@example.com''
   \<and> get_current_user sample_decode sample_db ''tok:alice@example.com'' = Inr alice"
proof -
  have u: "get_user_by_email sample_db ''alice@example.com'' = Some alice"
    "find (\<lambda>x. email x = ''alice@example.com'') (users sample_db) = Some alice"
    by (simp_all add: get_user_by_email_def sample_db_def alice_def bob_def)
  have off: "\<not> is_active alice"
    by (simp add: alice_def)
  have pw: "sample_verify ''wonderland'' (hashed_password alice)"
    by (simp add: sample_verify_def alice_def)
  have tk: "sample_token (email alice) (ACCESS_TOKEN_EXPIRE_MINUTES sample_settings)
              = ''tok:alice@example.com''"
    by (simp add: sample_token_def alice_def)
  have dc: "sample_decode ''tok:alice@example.com'' = Some ''alice@example.com''"
    by (simp add: sample_decode_def)
  show ?thesis
    using u off pw tk dc
      is_active_ignored [where vp = sample_verify and cat = sample_token
        and s = sample_settings and d = sample_db and e = "''alice@example.com''"
        and u = alice and p = "''wonderland''" and dec = sample_decode
        and tok = "''tok:alice@example.com''"]
    by simp
qed

section \<open>Token validity\<close>

text \<open>
  C8, as the claim states it, fails for a lifetime of zero: the token expires at the
  instant of issue, and verifying it at that instant does not return the subject.
\<close>

theorem zero_ttl_token_invalid:
  "verify sample_sign ''secret'' 0 (issue sample_sign ''secret'' 0 ''alice@example.com'' 0)
     \<noteq> Some ''alice@example.com''"
  by (simp add: verify_def issue_def)

text \<open>
  C8, amended. For every subject and every lifetime \<open>ttl\<close>: verifying an issued token
  at any time before its expiry \<open>now + ttl\<close> returns the subject, so for a positive
  lifetime verifying at the instant of issue does; verifying at or after the expiry
  returns invalid. In general a token verifies as valid if and only if its signature is
  the one the key gives for its payload and the current time is before its expiry, and
  then the result is its subject; a malformed token is invalid.
\<close>

theorem token_valid_iff:
  "(t < now + ttl \<longrightarrow> verify sign key t (issue sign key now subject ttl) = Some subject)
   \<and> (0 < ttl \<longrightarrow> verify sign key now (issue sign key now subject ttl) = Some subject)
   \<and> (now + ttl \<le> t \<longrightarrow> verify sign key t (issue sign key now subject ttl) = None)
   \<and> verify sign key t (Signed s e sg)
       = (if sg = sign key (s, e) \<and> t < e then Some s else None)
   \<and> verify sign key t (Malformed raw) = None"
  by (simp add: verify_def issue_def)

theorem token_valid_iff_witness:
  "(0::int) < 1800
   \<and> verify sample_sign ''secret'' 100 (issue sample_sign ''secret'' 100 ''bob@example.com'' 1800)
       = Some ''bob@example.com''
   \<and> (100::int) + 1800 \<le> 1900
   \<and> verify sample_sign ''secret'' 1900 (issue sample_sign ''secret'' 100 ''bob@example.com'' 1800)
       = None"
  using token_valid_iff [where t = 1900 and now = 100 and ttl = 1800 and sign = sample_sign
      and key = "''secret''" and subject = "''bob@example.com''"]
  by simp

end
